theory Spec2Isabelle
  imports Main
begin

section \<open>Data model of the timer component\<close>

text \<open>
  The timer is the React component \<open>App\<close> of \<open>src/unnamed/part_001\<close> (the
  timestamp-anchored variant); \<open>src/unnamed/part_000\<close> and
  \<open>src/tomato-60/src/App.tsx\<close> are tick-counting variants of the same component.
  Numbers are modelled as \<open>int\<close>: seconds, minutes and millisecond timestamps are whole
  numbers, and \<open>Math.floor(x / 1000)\<close> on them is \<open>div\<close>, which rounds towards
  minus infinity as \<open>Math.floor\<close> does.
\<close>

datatype TimerMode = Focus | ShortBreak | LongBreak

record TimerSettings =
  focus :: int
  shortBreak :: int
  longBreak :: int
  autoStartBreaks :: bool
  autoStartFocus :: bool
  goalTime :: int
  cycleCount :: int

definition DEFAULT_SETTINGS :: TimerSettings where
  "DEFAULT_SETTINGS =
     \<lparr>focus = 25, shortBreak = 5, longBreak = 15, autoStartBreaks = True,
      autoStartFocus = False, goalTime = 12, cycleCount = 4\<rparr>"

text \<open>The indexing \<open>settings[mode]\<close>: the minutes configured for a mode.\<close>

fun minutesOf :: "TimerSettings \<Rightarrow> TimerMode \<Rightarrow> int" where
  "minutesOf st Focus = focus st"
| "minutesOf st ShortBreak = shortBreak st"
| "minutesOf st LongBreak = longBreak st"

record DailyRecord =
  date :: string
  dayFocusTime :: int
  dayPomodoroCount :: int
  dayGoalAchieved :: bool

type_synonym HistoryData = "string \<rightharpoonup> DailyRecord"

text \<open>
  The state of \<open>App\<close>: one field per \<open>useState\<close> cell the timer logic reads or
  writes. \<open>lastFocusUpdate\<close> is the local variable of the interval effect.
  \<open>completionSignals\<close> and \<open>goalSignals\<close> record the presentation side effects:
  one entry per run of \<open>flashTitle(); showNotification(); playSound()\<close> (with the mode
  whose message is shown), and one count per run of the goal celebration.
\<close>

record AppState =
  mode :: TimerMode
  settings :: TimerSettings
  timeLeft :: int
  initialTime :: int
  isRunning :: bool
  pomodoroCount :: int
  totalFocusTime :: int
  goalAchieved :: bool
  showSettings :: bool
  startTime :: "int option"
  pausedTime :: int
  lastFocusUpdate :: int
  completionSignals :: "TimerMode list"
  goalSignals :: nat

text \<open>
  The first render: \<open>useState(settings.focus * 60)\<close> and the counters taken from
  today's record of the loaded history.
\<close>

definition initialState :: "TimerSettings \<Rightarrow> DailyRecord \<Rightarrow> AppState" where
  "initialState st todayData =
     \<lparr>mode = Focus, settings = st, timeLeft = focus st * 60, initialTime = focus st * 60,
      isRunning = False, pomodoroCount = dayPomodoroCount todayData,
      totalFocusTime = dayFocusTime todayData, goalAchieved = dayGoalAchieved todayData,
      showSettings = False, startTime = None, pausedTime = 0, lastFocusUpdate = 0,
      completionSignals = [], goalSignals = 0\<rparr>"

section \<open>The countdown engine\<close>

text \<open>
  \<open>Math.max(0, initialTime - Math.floor((now - startTime) / 1000))\<close>, the expression
  both the interval callback and \<open>handleVisibilityChange\<close> compute.
\<close>

definition remaining :: "int \<Rightarrow> int \<Rightarrow> int \<Rightarrow> int" where
  "remaining durationSeconds anchorStartTime now =
     max 0 (durationSeconds - (now - anchorStartTime) div 1000)"

section \<open>Handlers\<close>

text \<open>
  A handler is a closure created by one render: it reads the state values of that render
  (the argument \<open>c\<close>) and its \<open>setX(v)\<close> calls replace fields of the pending state
  (the argument \<open>s\<close>), which becomes the next render. A callback that runs on a fresh
  render has \<open>c = s\<close>. \<open>now\<close> is the value of \<open>Date.now()\<close>.
\<close>

definition switchMode ::
  "AppState \<Rightarrow> TimerMode \<Rightarrow> bool \<Rightarrow> int \<Rightarrow> AppState \<Rightarrow> AppState" where
  "switchMode c newMode autoStart now s =
     (let newTime = minutesOf (settings c) newMode * 60 in
      s\<lparr>mode := newMode, timeLeft := newTime, initialTime := newTime,
        pausedTime := newTime, isRunning := autoStart,
        startTime := (if autoStart then Some now else None)\<rparr>)"

definition handleTimerComplete :: "AppState \<Rightarrow> int \<Rightarrow> AppState \<Rightarrow> AppState" where
  "handleTimerComplete c now s =
     (let s1 = s\<lparr>isRunning := False, startTime := None,
                 completionSignals := completionSignals s @ [mode c]\<rparr> in
      if mode c = Focus then
        (let newCount = pomodoroCount c + 1;
             s2 = s1\<lparr>pomodoroCount := newCount\<rparr> in
         if newCount mod 4 = 0
         then switchMode c LongBreak (autoStartBreaks (settings c)) now s2
         else switchMode c ShortBreak (autoStartBreaks (settings c)) now s2)
      else switchMode c Focus (autoStartFocus (settings c)) now s1)"

text \<open>
  The interval callback. The interval exists only while the render that set it up had
  \<open>isRunning && startTime !== null\<close>.
\<close>

definition tick :: "AppState \<Rightarrow> int \<Rightarrow> AppState \<Rightarrow> AppState" where
  "tick c now s =
     (case startTime c of
        None \<Rightarrow> s
      | Some anchor \<Rightarrow>
          if \<not> isRunning c then s
          else
            (let newTimeLeft = remaining (initialTime c) anchor now;
                 s1 = (if mode c = Focus \<and> now - lastFocusUpdate s \<ge> 1000
                       then s\<lparr>totalFocusTime :=
                                 totalFocusTime s + (now - lastFocusUpdate s) div 1000,
                               lastFocusUpdate := now\<rparr>
                       else s);
                 s2 = s1\<lparr>timeLeft := newTimeLeft\<rparr> in
             if newTimeLeft = 0 then handleTimerComplete c now s2 else s2))"

definition handleVisibilityChange ::
  "AppState \<Rightarrow> bool \<Rightarrow> int \<Rightarrow> AppState \<Rightarrow> AppState" where
  "handleVisibilityChange c hidden now s =
     (case startTime c of
        None \<Rightarrow> s
      | Some anchor \<Rightarrow>
          if \<not> hidden \<and> isRunning c then
            (let newTimeLeft = remaining (initialTime c) anchor now;
                 s1 = s\<lparr>timeLeft := newTimeLeft\<rparr> in
             if newTimeLeft = 0 then handleTimerComplete c now s1 else s1)
          else s)"

definition toggleTimer :: "AppState \<Rightarrow> AppState \<Rightarrow> AppState" where
  "toggleTimer c s = s\<lparr>isRunning := \<not> isRunning c\<rparr>"

definition resetTimer :: "AppState \<Rightarrow> AppState \<Rightarrow> AppState" where
  "resetTimer c s =
     s\<lparr>isRunning := False, timeLeft := initialTime c, startTime := None,
       pausedTime := initialTime c\<rparr>"

definition updateSettings :: "AppState \<Rightarrow> TimerSettings \<Rightarrow> AppState \<Rightarrow> AppState" where
  "updateSettings c newSettings s =
     (let newTime = minutesOf newSettings (mode c) * 60;
          s1 = s\<lparr>settings := newSettings, timeLeft := newTime, initialTime := newTime,
                 startTime := None, pausedTime := newTime, showSettings := False\<rparr> in
      if goalTime newSettings \<noteq> goalTime (settings c)
      then s1\<lparr>goalAchieved := False\<rparr> else s1)"

section \<open>Effects\<close>

text \<open>
  An effect runs after a render, on the values of that render, so closure and pending
  state coincide. \<open>timeTrackingEffect\<close> is the effect on \<open>[isRunning]\<close>,
  \<open>goalEffect\<close> the one on \<open>[totalFocusTime, settings.goalTime, goalAchieved]\<close>,
  \<open>intervalSetup\<close> the initialisation \<open>let lastFocusUpdate = Date.now()\<close> of the
  interval effect.
\<close>

definition timeTrackingEffect :: "int \<Rightarrow> AppState \<Rightarrow> AppState" where
  "timeTrackingEffect now s =
     (if isRunning s then
        (let elapsedSeconds = initialTime s - timeLeft s in
         s\<lparr>startTime := Some (now - elapsedSeconds * 1000)\<rparr>)
      else s\<lparr>pausedTime := timeLeft s, startTime := None\<rparr>)"

definition goalEffect :: "AppState \<Rightarrow> AppState" where
  "goalEffect s =
     (let goalSeconds = goalTime (settings s) * 3600 in
      if \<not> goalAchieved s \<and> totalFocusTime s \<ge> goalSeconds
      then s\<lparr>goalAchieved := True, goalSignals := goalSignals s + 1\<rparr>
      else s)"

definition intervalSetup :: "int \<Rightarrow> AppState \<Rightarrow> AppState" where
  "intervalSetup now s = s\<lparr>lastFocusUpdate := now\<rparr>"

section \<open>Renders and batches of callbacks\<close>

text \<open>
  Between two renders every callback that fires is a closure of the same render: all of
  them read that render's values, and their state updates accumulate in the pending
  state. \<open>handleTimerComplete\<close> is only ever called by the interval callback and by
  \<open>handleVisibilityChange\<close>. The mode buttons call \<open>switchMode(m)\<close>, whose
  \<open>autoStart\<close> defaults to \<open>false\<close>.
\<close>

datatype Callback =
    Tick int
  | VisibilityChange bool int
  | ToggleTimer
  | ResetTimer
  | ModeButton TimerMode int
  | SaveSettings TimerSettings

fun callback :: "AppState \<Rightarrow> Callback \<Rightarrow> AppState \<Rightarrow> AppState" where
  "callback c (Tick now) s = tick c now s"
| "callback c (VisibilityChange hidden now) s = handleVisibilityChange c hidden now s"
| "callback c ToggleTimer s = toggleTimer c s"
| "callback c ResetTimer s = resetTimer c s"
| "callback c (ModeButton m now) s = switchMode c m False now s"
| "callback c (SaveSettings newSettings) s = updateSettings c newSettings s"

definition batch :: "Callback list \<Rightarrow> AppState \<Rightarrow> AppState" where
  "batch cbs c = foldl (\<lambda>s cb. callback c cb s) c cbs"

text \<open>
  The effects of the commit that follows: the goal effect, the time tracking effect when
  \<open>isRunning\<close> differs from the previous render, and the interval effect's set-up when
  one of its dependencies \<open>[isRunning, startTime, mode, initialTime]\<close> differs. The
  goal effect is run at every commit: when none of its dependencies changed, its
  condition is already false.
\<close>

definition commitEffects :: "AppState \<Rightarrow> int \<Rightarrow> AppState \<Rightarrow> AppState" where
  "commitEffects prev now s =
     (let s1 = goalEffect s;
          s2 = (if isRunning s1 \<noteq> isRunning prev then timeTrackingEffect now s1 else s1) in
      if isRunning s2 \<noteq> isRunning prev \<or> startTime s2 \<noteq> startTime prev
         \<or> mode s2 \<noteq> mode prev \<or> initialTime s2 \<noteq> initialTime prev
      then intervalSetup now s2 else s2)"

definition mount :: "int \<Rightarrow> TimerSettings \<Rightarrow> DailyRecord \<Rightarrow> AppState" where
  "mount now st todayData =
     intervalSetup now (timeTrackingEffect now (goalEffect (initialState st todayData)))"

definition render :: "int \<times> Callback list \<Rightarrow> AppState \<Rightarrow> AppState" where
  "render ev s = commitEffects s (fst ev) (batch (snd ev) s)"

definition run :: "(int \<times> Callback list) list \<Rightarrow> AppState \<Rightarrow> AppState" where
  "run evs s = foldl (\<lambda>s ev. render ev s) s evs"




section \<open>The tick-counting variant\<close>

text \<open>
  \<open>src/unnamed/part_000\<close> and \<open>src/tomato-60/src/App.tsx\<close> count ticks instead of
  reading the clock: they have no \<open>startTime\<close>, \<open>pausedTime\<close> or
  \<open>lastFocusUpdate\<close>, and their handlers leave those fields alone. The countdown
  effect depends on \<open>[isRunning, timeLeft, mode]\<close>, so each tick is followed by a
  render and a fresh interval; its interval callback decrements with the functional
  update \<open>prev - 1\<close>.
\<close>

definition switchMode_v0 :: "AppState \<Rightarrow> TimerMode \<Rightarrow> bool \<Rightarrow> AppState \<Rightarrow> AppState" where
  "switchMode_v0 c newMode autoStart s =
     (let newTime = minutesOf (settings c) newMode * 60 in
      s\<lparr>mode := newMode, timeLeft := newTime, initialTime := newTime,
        isRunning := autoStart\<rparr>)"

definition handleTimerComplete_v0 :: "AppState \<Rightarrow> AppState \<Rightarrow> AppState" where
  "handleTimerComplete_v0 c s =
     (let s1 = s\<lparr>isRunning := False,
                 completionSignals := completionSignals s @ [mode c]\<rparr> in
      if mode c = Focus then
        (let newCount = pomodoroCount c + 1;
             s2 = s1\<lparr>pomodoroCount := newCount\<rparr> in
         if newCount mod 4 = 0
         then switchMode_v0 c LongBreak (autoStartBreaks (settings c)) s2
         else switchMode_v0 c ShortBreak (autoStartBreaks (settings c)) s2)
      else switchMode_v0 c Focus (autoStartFocus (settings c)) s1)"




definition updateSettings_v0 :: "AppState \<Rightarrow> TimerSettings \<Rightarrow> AppState \<Rightarrow> AppState" where
  "updateSettings_v0 c newSettings s =
     (let newTime = minutesOf newSettings (mode c) * 60;
          s1 = s\<lparr>settings := newSettings, timeLeft := newTime, initialTime := newTime,
                 showSettings := False\<rparr> in
      if goalTime newSettings \<noteq> goalTime (settings c)
      then s1\<lparr>goalAchieved := False\<rparr> else s1)"





section \<open>Date keys and the history ledger\<close>

text \<open>
  The JavaScript \<open>Date\<close> of a millisecond timestamp, for the proleptic Gregorian
  calendar: \<open>civil_from_days\<close> turns a count of days since 1970-01-01 into year, month
  (1 to 12) and day of month. \<open>toISOString\<close> reads the fields in UTC; the getters
  \<open>getFullYear\<close>, \<open>getMonth\<close> (0 to 11) and \<open>getDate\<close> read them in the local time
  zone, here a fixed offset \<open>tz\<close> in minutes east of UTC (540 for Asia/Seoul).
\<close>

definition civil_from_days :: "int \<Rightarrow> int \<times> int \<times> int" where
  "civil_from_days days =
     (let z = days + 719468;
          era = z div 146097;
          doe = z - era * 146097;
          yoe = (doe - doe div 1460 + doe div 36524 - doe div 146096) div 365;
          doy = doe - (365 * yoe + yoe div 4 - yoe div 100);
          mp = (5 * doy + 2) div 153;
          d = doy - (153 * mp + 2) div 5 + 1;
          m = (if mp < 10 then mp + 3 else mp - 9);
          y = yoe + era * 400 in
      (if m \<le> 2 then y + 1 else y, m, d))"

definition utcFields :: "int \<Rightarrow> int \<times> int \<times> int" where
  "utcFields ts = civil_from_days (ts div 86400000)"

definition localFields :: "int \<Rightarrow> int \<Rightarrow> int \<times> int \<times> int" where
  "localFields tz ts = civil_from_days ((ts + tz * 60000) div 86400000)"

definition getFullYear :: "int \<Rightarrow> int \<Rightarrow> int" where
  "getFullYear tz ts = fst (localFields tz ts)"

definition getMonth :: "int \<Rightarrow> int \<Rightarrow> int" where
  "getMonth tz ts = fst (snd (localFields tz ts)) - 1"

definition getDate :: "int \<Rightarrow> int \<Rightarrow> int" where
  "getDate tz ts = snd (snd (localFields tz ts))"

fun showNat :: "nat \<Rightarrow> string" where
  "showNat n =
     (if n < 10 then [''0123456789'' ! n]
      else showNat (n div 10) @ [''0123456789'' ! (n mod 10)])"

declare showNat.simps [simp del]

text \<open>\<open>String(n)\<close> of a whole number.\<close>

definition String :: "int \<Rightarrow> string" where
  "String n = (if n < 0 then ''-'' @ showNat (nat (- n)) else showNat (nat n))"

text \<open>\<open>str.padStart(targetLength, '0')\<close>.\<close>

definition padStart :: "nat \<Rightarrow> string \<Rightarrow> string" where
  "padStart targetLength str = replicate (targetLength - length str) (CHR ''0'') @ str"

text \<open>
  \<open>date.toISOString().split('T')[0]\<close>: the UTC date, the year with four digits, or
  with a sign and six digits outside 0 to 9999.
\<close>

definition isoYear :: "int \<Rightarrow> string" where
  "isoYear y =
     (if 0 \<le> y \<and> y \<le> 9999 then padStart 4 (String y)
      else (if y < 0 then ''-'' else ''+'') @ padStart 6 (String \<bar>y\<bar>))"

definition isoDate :: "int \<Rightarrow> string" where
  "isoDate ts =
     (case utcFields ts of
        (y, m, d) \<Rightarrow> isoYear y @ ''-'' @ padStart 2 (String m) @ ''-'' @ padStart 2 (String d))"

definition getTodayDate :: "int \<Rightarrow> string" where
  "getTodayDate now = isoDate now"

text \<open>
  \<open>getDateKey(day)\<close> of the calendar view, whose \<open>currentDate\<close> is the viewed month:
  the key of the cell of day \<open>day\<close>.
\<close>

definition getDateKey :: "int \<Rightarrow> int \<Rightarrow> int \<Rightarrow> string" where
  "getDateKey tz currentDate day =
     (let year = getFullYear tz currentDate;
          month = padStart 2 (String (getMonth tz currentDate + 1));
          dayStr = padStart 2 (String day) in
      String year @ ''-'' @ month @ ''-'' @ dayStr)"

text \<open>The cell the calendar view shows for the local calendar day of a timestamp.\<close>

definition calendarKeyOf :: "int \<Rightarrow> int \<Rightarrow> string" where
  "calendarKeyOf tz ts = getDateKey tz ts (getDate tz ts)"

definition getTodayData :: "int \<Rightarrow> HistoryData \<Rightarrow> DailyRecord" where
  "getTodayData now history =
     (let today = getTodayDate now in
      case history today of
        Some r \<Rightarrow> r
      | None \<Rightarrow> \<lparr>date = today, dayFocusTime = 0, dayPomodoroCount = 0,
                 dayGoalAchieved = False\<rparr>)"

text \<open>
  The effect on \<open>[totalFocusTime, pomodoroCount, goalAchieved]\<close> that stores today's
  record, and a render followed by it when one of the three changed.
\<close>

definition saveToday :: "int \<Rightarrow> AppState \<Rightarrow> HistoryData \<Rightarrow> HistoryData" where
  "saveToday now s history =
     (let today = getTodayDate now in
      history(today \<mapsto> \<lparr>date = today, dayFocusTime = totalFocusTime s,
                          dayPomodoroCount = pomodoroCount s,
                          dayGoalAchieved = goalAchieved s\<rparr>))"

definition renderSaving ::
  "int \<times> Callback list \<Rightarrow> AppState \<times> HistoryData \<Rightarrow> AppState \<times> HistoryData" where
  "renderSaving ev sh =
     (let s = fst sh; s' = render ev s in
      (s', if totalFocusTime s' \<noteq> totalFocusTime s \<or> pomodoroCount s' \<noteq> pomodoroCount s
              \<or> goalAchieved s' \<noteq> goalAchieved s
           then saveToday (fst ev) s' (snd sh) else snd sh))"

definition runSaving ::
  "(int \<times> Callback list) list \<Rightarrow> AppState \<times> HistoryData \<Rightarrow> AppState \<times> HistoryData" where
  "runSaving evs sh = foldl (\<lambda>sh ev. renderSaving ev sh) sh evs"

section \<open>Schedules used in the statements\<close>

text \<open>One render per poll, each poll an interval callback on a fresh render.\<close>

definition pollsAt :: "int list \<Rightarrow> (int \<times> Callback list) list" where
  "pollsAt ps = map (\<lambda>p. (p, [Tick p])) ps"

text \<open>
  Later evaluations of the goal: the accumulated focus time takes the given values one
  after the other, and the goal effect runs after each.
\<close>

definition goalEvaluations :: "int list \<Rightarrow> AppState \<Rightarrow> AppState" where
  "goalEvaluations totals s =
     foldl (\<lambda>s total. goalEffect (s\<lparr>totalFocusTime := total\<rparr>)) s totals"

fun notSaveSettings :: "Callback \<Rightarrow> bool" where
  "notSaveSettings (SaveSettings newSettings) = False"
| "notSaveSettings _ = True"

definition noSettingsChange :: "(int \<times> Callback list) list \<Rightarrow> bool" where
  "noSettingsChange evs = list_all (\<lambda>ev. list_all notSaveSettings (snd ev)) evs"

section \<open>Quantities used in the proofs\<close>

text \<open>
  The goal signals emitted so far plus the one that can still be emitted, and the
  invariant of the countdown: remaining time, duration and configured durations are not
  negative.
\<close>

definition goalPotential :: "AppState \<Rightarrow> nat" where
  "goalPotential s = goalSignals s + (if goalAchieved s then 0 else 1)"


section \<open>Example states\<close>

definition noRecord :: DailyRecord where
  "noRecord = \<lparr>date = ''2024-01-01'', dayFocusTime = 0, dayPomodoroCount = 0,
               dayGoalAchieved = False\<rparr>"

text \<open>A focus session of the default 25 minutes, started at time \<open>t\<close>.\<close>

definition startedAt :: "int \<Rightarrow> AppState" where
  "startedAt t = render (t, [ToggleTimer]) (mount t DEFAULT_SETTINGS noRecord)"

text \<open>
  The same session with a goal of one hour and \<open>secs\<close> seconds of focus accumulated.
\<close>

definition oneHourGoal :: "int \<Rightarrow> AppState" where
  "oneHourGoal secs =
     (startedAt 0)\<lparr>settings := DEFAULT_SETTINGS\<lparr>goalTime := 1\<rparr>, totalFocusTime := secs\<rparr>"

definition runningFocus :: AppState where
  "runningFocus = startedAt 0"

section \<open>Basic facts\<close>

lemma startedAt_eq:
  "startedAt t =
     \<lparr>mode = Focus, settings = DEFAULT_SETTINGS, timeLeft = 1500, initialTime = 1500,
      isRunning = True, pomodoroCount = 0, totalFocusTime = 0, goalAchieved = False,
      showSettings = False, startTime = Some t, pausedTime = 1500, lastFocusUpdate = t,
      completionSignals = [], goalSignals = 0\<rparr>"
  by (simp add: startedAt_def render_def batch_def mount_def commitEffects_def goalEffect_def
      timeTrackingEffect_def intervalSetup_def toggleTimer_def initialState_def
      DEFAULT_SETTINGS_def noRecord_def Let_def)

lemma render_poll_not_complete:
  assumes "isRunning s" and "startTime s = Some a"
    and "remaining (initialTime s) a p \<noteq> 0"
  shows "timeLeft (render (p, [Tick p]) s) = remaining (initialTime s) a p"
    and "isRunning (render (p, [Tick p]) s)"
    and "startTime (render (p, [Tick p]) s) = Some a"
    and "initialTime (render (p, [Tick p]) s) = initialTime s"
  using assms
  by (simp_all add: render_def batch_def commitEffects_def goalEffect_def intervalSetup_def
      tick_def Let_def)

lemma render_visible_not_complete:
  assumes "isRunning s" and "startTime s = Some a"
    and "remaining (initialTime s) a p \<noteq> 0"
  shows "timeLeft (render (p, [VisibilityChange False p]) s) = remaining (initialTime s) a p"
  using assms
  by (simp add: render_def batch_def commitEffects_def goalEffect_def intervalSetup_def
      handleVisibilityChange_def Let_def)

lemma run_polls_keep:
  assumes "isRunning s" and "startTime s = Some a"
    and "list_all (\<lambda>p. remaining (initialTime s) a p \<noteq> 0) ps"
  shows "isRunning (run (pollsAt ps) s) \<and> startTime (run (pollsAt ps) s) = Some a
         \<and> initialTime (run (pollsAt ps) s) = initialTime s"
  using assms
proof (induction ps arbitrary: s)
  case Nil
  then show ?case by (simp add: run_def pollsAt_def)
next
  case (Cons p ps)
  let ?s1 = "render (p, [Tick p]) s"
  from Cons.prems have p: "remaining (initialTime s) a p \<noteq> 0" by simp
  have k: "isRunning ?s1" "startTime ?s1 = Some a" "initialTime ?s1 = initialTime s"
    using render_poll_not_complete(2,3,4) [OF Cons.prems(1,2) p] by simp_all
  from Cons.prems(3) k(3)
  have "list_all (\<lambda>p. remaining (initialTime ?s1) a p \<noteq> 0) ps" by simp
  from Cons.IH [OF k(1) k(2) this] k(3)
  show ?case by (simp add: run_def pollsAt_def)
qed


section \<open>The countdown engine: remaining time\<close>

text \<open>
  C1. For every configured duration \<open>durationSeconds > 0\<close>, anchor \<open>t\<close> and
  \<open>elapsedMs \<ge> 0\<close>, the remaining time of a running countdown evaluated at
  \<open>t + elapsedMs\<close> is \<open>max 0 (durationSeconds - elapsedMs div 1000)\<close>. It depends only
  on duration, anchor and the time of evaluation: whatever polls \<open>ps\<close> ran before
  without completing the countdown, the poll at \<open>t + elapsedMs\<close> and the recomputation
  on becoming visible both store exactly that value.
\<close>

theorem remaining_formula:
  assumes "0 < durationSeconds" and "0 \<le> elapsedMs"
  shows "remaining durationSeconds t (t + elapsedMs)
           = max 0 (durationSeconds - elapsedMs div 1000)
         \<and> (isRunning s \<and> startTime s = Some t \<and> initialTime s = durationSeconds
              \<and> remaining durationSeconds t (t + elapsedMs) \<noteq> 0
              \<and> list_all (\<lambda>p. remaining durationSeconds t p \<noteq> 0) ps \<longrightarrow>
              timeLeft (render (t + elapsedMs, [Tick (t + elapsedMs)]) (run (pollsAt ps) s))
                = remaining durationSeconds t (t + elapsedMs)
              \<and> timeLeft (render (t + elapsedMs, [VisibilityChange False (t + elapsedMs)])
                            (run (pollsAt ps) s))
                = remaining durationSeconds t (t + elapsedMs))"
proof (intro conjI impI)
  show "remaining durationSeconds t (t + elapsedMs)
          = max 0 (durationSeconds - elapsedMs div 1000)"
    by (simp add: remaining_def)
next
  assume h: "isRunning s \<and> startTime s = Some t \<and> initialTime s = durationSeconds
      \<and> remaining durationSeconds t (t + elapsedMs) \<noteq> 0
      \<and> list_all (\<lambda>p. remaining durationSeconds t p \<noteq> 0) ps"
  let ?s1 = "run (pollsAt ps) s"
  from h have k: "isRunning ?s1" "startTime ?s1 = Some t" "initialTime ?s1 = durationSeconds"
    using run_polls_keep [of s t ps] by simp_all
  with h show "timeLeft (render (t + elapsedMs, [Tick (t + elapsedMs)]) ?s1)
                 = remaining durationSeconds t (t + elapsedMs)"
    using render_poll_not_complete(1) [of ?s1 t "t + elapsedMs"] by simp
next
  assume h: "isRunning s \<and> startTime s = Some t \<and> initialTime s = durationSeconds
      \<and> remaining durationSeconds t (t + elapsedMs) \<noteq> 0
      \<and> list_all (\<lambda>p. remaining durationSeconds t p \<noteq> 0) ps"
  let ?s1 = "run (pollsAt ps) s"
  from h have k: "isRunning ?s1" "startTime ?s1 = Some t" "initialTime ?s1 = durationSeconds"
    using run_polls_keep [of s t ps] by simp_all
  with h show "timeLeft (render (t + elapsedMs, [VisibilityChange False (t + elapsedMs)]) ?s1)
                 = remaining durationSeconds t (t + elapsedMs)"
    using render_visible_not_complete [of ?s1 t "t + elapsedMs"] by simp
qed

theorem remaining_formula_witness:
  "(0::int) < 1500 \<and> (0::int) \<le> 4500
   \<and> remaining 1500 100 (100 + 4500) = 1496
   \<and> timeLeft (render (100 + 4500, [Tick (100 + 4500)])
                 (run (pollsAt [200, 1300, 2900]) (startedAt 100))) = 1496
   \<and> timeLeft (render (100 + 4500, [VisibilityChange False (100 + 4500)])
                 (run (pollsAt [200, 1300, 2900]) (startedAt 100))) = 1496"
  using remaining_formula [of 1500 4500 100 "startedAt 100" "[200, 1300, 2900]"]
  by (simp add: startedAt_eq remaining_def)

section \<open>Completion of a countdown\<close>

text \<open>
  C3. When a countdown completes in focus mode, the counter is incremented and the
  machine switches to the long break exactly when the new count is a multiple of 4,
  otherwise to the short break, running according to \<open>autoStartBreaks\<close>; when it
  completes in a break mode, the machine switches to focus, running according to
  \<open>autoStartFocus\<close>. The new duration is loaded, and the anchor is set when the new
  countdown runs. New counts 1, 2, 3, 4 route to short, short, short, long. The
  tick-counting variant routes in the same way.
\<close>

theorem completion_routing:
  "(mode c = Focus \<longrightarrow>
      pomodoroCount (handleTimerComplete c now s) = pomodoroCount c + 1
      \<and> mode (handleTimerComplete c now s)
          = (if (pomodoroCount c + 1) mod 4 = 0 then LongBreak else ShortBreak)
      \<and> isRunning (handleTimerComplete c now s) = autoStartBreaks (settings c))
   \<and> (mode c \<noteq> Focus \<longrightarrow>
      pomodoroCount (handleTimerComplete c now s) = pomodoroCount s
      \<and> mode (handleTimerComplete c now s) = Focus
      \<and> isRunning (handleTimerComplete c now s) = autoStartFocus (settings c))
   \<and> timeLeft (handleTimerComplete c now s)
        = minutesOf (settings c) (mode (handleTimerComplete c now s)) * 60
   \<and> initialTime (handleTimerComplete c now s) = timeLeft (handleTimerComplete c now s)
   \<and> startTime (handleTimerComplete c now s)
        = (if isRunning (handleTimerComplete c now s) then Some now else None)
   \<and> map (\<lambda>n. mode (handleTimerComplete (c\<lparr>mode := Focus, pomodoroCount := n\<rparr>) now s))
        [0, 1, 2, 3] = [ShortBreak, ShortBreak, ShortBreak, LongBreak]
   \<and> (mode c = Focus \<longrightarrow>
      pomodoroCount (handleTimerComplete_v0 c s) = pomodoroCount c + 1
      \<and> mode (handleTimerComplete_v0 c s)
          = (if (pomodoroCount c + 1) mod 4 = 0 then LongBreak else ShortBreak)
      \<and> isRunning (handleTimerComplete_v0 c s) = autoStartBreaks (settings c))
   \<and> (mode c \<noteq> Focus \<longrightarrow>
      pomodoroCount (handleTimerComplete_v0 c s) = pomodoroCount s
      \<and> mode (handleTimerComplete_v0 c s) = Focus
      \<and> isRunning (handleTimerComplete_v0 c s) = autoStartFocus (settings c))"
  by (simp add: handleTimerComplete_def switchMode_def handleTimerComplete_v0_def
      switchMode_v0_def Let_def)

theorem completion_routing_witness:
  "mode (startedAt 0) = Focus
   \<and> pomodoroCount (handleTimerComplete (startedAt 0) 1500000 (startedAt 0)) = 1
   \<and> mode (handleTimerComplete (startedAt 0) 1500000 (startedAt 0)) = ShortBreak
   \<and> isRunning (handleTimerComplete (startedAt 0) 1500000 (startedAt 0))
   \<and> mode ((startedAt 0)\<lparr>mode := LongBreak\<rparr>) \<noteq> Focus
   \<and> mode (handleTimerComplete ((startedAt 0)\<lparr>mode := LongBreak\<rparr>) 9 (startedAt 0)) = Focus
   \<and> \<not> isRunning (handleTimerComplete ((startedAt 0)\<lparr>mode := LongBreak\<rparr>) 9 (startedAt 0))"
  using completion_routing [of "startedAt 0" 1500000 "startedAt 0"]
    completion_routing [of "(startedAt 0)\<lparr>mode := LongBreak\<rparr>" 9 "startedAt 0"]
  by (simp add: startedAt_eq DEFAULT_SETTINGS_def)

text \<open>
  C2, as claimed: two completions handled from the same render give one increment of the
  counter and one completion signal. Below, a focus session started at 0 is past its
  deadline when the tab becomes visible again; the visibility handler and the interval
  callback that was pending both run as closures of the same render. The counter goes up
  by one, but two completion signals are emitted.
\<close>

theorem completion_twice_counterexample:
  "\<not> (pomodoroCount (batch [VisibilityChange False 1500500, Tick 1500500] runningFocus)
         = pomodoroCount runningFocus + 1
       \<and> length (completionSignals
                  (batch [VisibilityChange False 1500500, Tick 1500500] runningFocus))
         = length (completionSignals runningFocus) + 1)"
  by (simp add: runningFocus_def startedAt_eq batch_def tick_def handleVisibilityChange_def
      remaining_def handleTimerComplete_def switchMode_def Let_def DEFAULT_SETTINGS_def)

text \<open>
  C2, amended. Handling the completion twice from the same render increments the counter
  once (both invocations store the same value, computed from the render's count) and
  leaves mode and duration as the first invocation set them, but it emits a completion
  signal at each invocation, two in all: the handler keeps no flag of a completion
  already handled.
\<close>

theorem completion_twice:
  "pomodoroCount (handleTimerComplete c now2 (handleTimerComplete c now1 s))
     = (if mode c = Focus then pomodoroCount c + 1 else pomodoroCount s)
   \<and> pomodoroCount (handleTimerComplete c now2 (handleTimerComplete c now1 s))
     = pomodoroCount (handleTimerComplete c now1 s)
   \<and> completionSignals (handleTimerComplete c now2 (handleTimerComplete c now1 s))
     = completionSignals s @ [mode c, mode c]
   \<and> mode (handleTimerComplete c now2 (handleTimerComplete c now1 s))
     = mode (handleTimerComplete c now1 s)
   \<and> timeLeft (handleTimerComplete c now2 (handleTimerComplete c now1 s))
     = timeLeft (handleTimerComplete c now1 s)"
  by (simp add: handleTimerComplete_def switchMode_def Let_def)

theorem completion_twice_witness:
  "pomodoroCount (handleTimerComplete runningFocus 1500100
      (handleTimerComplete runningFocus 1500000 runningFocus)) = 1
   \<and> completionSignals (handleTimerComplete runningFocus 1500100
      (handleTimerComplete runningFocus 1500000 runningFocus)) = [Focus, Focus]"
  using completion_twice [of runningFocus 1500100 1500000 runningFocus]
  by (simp add: runningFocus_def startedAt_eq)


section \<open>The daily goal\<close>

lemma goalEffect_potential: "goalPotential (goalEffect s) = goalPotential s"
  by (simp add: goalPotential_def goalEffect_def Let_def)

lemma goalEffect_achieved: "goalAchieved s \<Longrightarrow> goalEffect s = s"
  by (simp add: goalEffect_def Let_def)

lemma goalEffect_keeps_achieved: "goalAchieved s \<Longrightarrow> goalAchieved (goalEffect s)"
  by (simp add: goalEffect_def Let_def)

lemma goalEvaluations_achieved:
  "goalAchieved s \<Longrightarrow> goalSignals (goalEvaluations totals s) = goalSignals s
     \<and> goalAchieved (goalEvaluations totals s)"
proof (induction totals arbitrary: s)
  case Nil
  then show ?case by (simp add: goalEvaluations_def)
next
  case (Cons t ts)
  have "goalEffect (s\<lparr>totalFocusTime := t\<rparr>) = s\<lparr>totalFocusTime := t\<rparr>"
    using Cons.prems by (simp add: goalEffect_def Let_def)
  moreover have "goalAchieved (s\<lparr>totalFocusTime := t\<rparr>)" using Cons.prems by simp
  ultimately show ?case using Cons.IH [of "s\<lparr>totalFocusTime := t\<rparr>"]
    by (simp add: goalEvaluations_def)
qed

lemma callback_goal_fields:
  assumes "notSaveSettings cb"
  shows "goalAchieved (callback c cb s) = goalAchieved s"
    and "goalSignals (callback c cb s) = goalSignals s"
  using assms
  by (cases cb; simp add: tick_def handleVisibilityChange_def handleTimerComplete_def
      switchMode_def toggleTimer_def resetTimer_def Let_def split: option.splits)+

lemma batch_goal_fields_aux:
  assumes "list_all notSaveSettings cbs"
  shows "goalAchieved (foldl (\<lambda>s cb. callback c cb s) s cbs) = goalAchieved s
         \<and> goalSignals (foldl (\<lambda>s cb. callback c cb s) s cbs) = goalSignals s"
  using assms
proof (induction cbs arbitrary: s)
  case Nil
  then show ?case by simp
next
  case (Cons cb cbs)
  then show ?case using callback_goal_fields [of cb c s] by simp
qed

lemma render_potential:
  assumes "list_all notSaveSettings (snd ev)"
  shows "goalPotential (render ev s) = goalPotential s"
proof -
  have b: "goalPotential (batch (snd ev) s) = goalPotential s"
    using batch_goal_fields_aux [OF assms, of s s] by (simp add: batch_def goalPotential_def)
  have "goalPotential (render ev s) = goalPotential (goalEffect (batch (snd ev) s))"
    by (simp add: render_def commitEffects_def timeTrackingEffect_def intervalSetup_def
        goalPotential_def Let_def)
  with b show ?thesis by (simp add: goalEffect_potential)
qed

lemma run_potential:
  assumes "noSettingsChange evs"
  shows "goalPotential (run evs s) = goalPotential s"
  using assms
proof (induction evs arbitrary: s)
  case Nil
  then show ?case by (simp add: run_def)
next
  case (Cons ev evs)
  from Cons.prems have "list_all notSaveSettings (snd ev)" and "noSettingsChange evs"
    by (simp_all add: noSettingsChange_def)
  then show ?case using Cons.IH [of "render ev s"] render_potential [of ev s]
    by (simp add: run_def)
qed

text \<open>
  C5. Goal crossing is a one-shot. When the accumulated focus time has reached
  \<open>goalTime * 3600\<close> and \<open>goalAchieved\<close> was false, the goal effect sets it and emits
  one goal signal; once it is set, no later evaluation emits another, whatever the
  accumulated time. Over any run of renders without a settings change at most one signal
  is emitted, and none when the goal had been achieved before. With a goal of one hour,
  evaluations at 3599, 3600 and 3700 seconds emit 0, 1 and 1 signals in total. A settings
  update that changes the goal hours clears \<open>goalAchieved\<close>; one that keeps them leaves
  it alone.
\<close>

theorem goal_one_shot:
  "(\<not> goalAchieved s \<and> goalTime (settings s) * 3600 \<le> totalFocusTime s \<longrightarrow>
      goalAchieved (goalEffect s) \<and> goalSignals (goalEffect s) = goalSignals s + 1)
   \<and> (goalAchieved s \<longrightarrow>
        goalSignals (goalEvaluations totals s) = goalSignals s
        \<and> goalAchieved (goalEvaluations totals s))
   \<and> (noSettingsChange evs \<longrightarrow>
        goalSignals (run evs s) \<le> goalSignals s + (if goalAchieved s then 0 else 1))
   \<and> (goalTime (settings s) = 1 \<and> \<not> goalAchieved s \<longrightarrow>
        map (\<lambda>totals. goalSignals (goalEvaluations totals s) - goalSignals s)
          [[3599], [3599, 3600], [3599, 3600, 3700]] = [0, 1, 1])
   \<and> (goalTime newSettings \<noteq> goalTime (settings c) \<longrightarrow>
        \<not> goalAchieved (updateSettings c newSettings s))
   \<and> (goalTime newSettings = goalTime (settings c) \<longrightarrow>
        goalAchieved (updateSettings c newSettings s) = goalAchieved s)"
proof (intro conjI impI)
  assume "noSettingsChange evs"
  then have "goalPotential (run evs s) = goalPotential s" by (rule run_potential)
  then show "goalSignals (run evs s) \<le> goalSignals s + (if goalAchieved s then 0 else 1)"
    by (simp add: goalPotential_def split: if_splits)
next
  assume "goalAchieved s"
  then show "goalSignals (goalEvaluations totals s) = goalSignals s"
    and "goalAchieved (goalEvaluations totals s)"
    using goalEvaluations_achieved [of s totals] by simp_all
qed (simp_all add: goalEffect_def goalEvaluations_def updateSettings_def Let_def)


lemma oneHourGoal_eq:
  "oneHourGoal secs =
     \<lparr>mode = Focus, settings = DEFAULT_SETTINGS\<lparr>goalTime := 1\<rparr>, timeLeft = 1500,
      initialTime = 1500, isRunning = True, pomodoroCount = 0, totalFocusTime = secs,
      goalAchieved = False, showSettings = False, startTime = Some 0, pausedTime = 1500,
      lastFocusUpdate = 0, completionSignals = [], goalSignals = 0\<rparr>"
  by (simp add: oneHourGoal_def startedAt_eq)

theorem goal_one_shot_witness:
  "\<not> goalAchieved (oneHourGoal 3600)
   \<and> goalTime (settings (oneHourGoal 3600)) * 3600 \<le> totalFocusTime (oneHourGoal 3600)
   \<and> goalAchieved (goalEffect (oneHourGoal 3600))
   \<and> goalSignals (goalEffect (oneHourGoal 3600)) = 1
   \<and> goalAchieved (goalEffect (oneHourGoal 3600))
   \<and> goalSignals (goalEvaluations [3700, 3800] (goalEffect (oneHourGoal 3600))) = 1
   \<and> noSettingsChange (pollsAt [1000, 2000, 3000])
   \<and> goalSignals (run (pollsAt [1000, 2000, 3000]) (oneHourGoal 3598)) \<le> 1
   \<and> map (\<lambda>totals. goalSignals (goalEvaluations totals (oneHourGoal 3000)))
        [[3599], [3599, 3600], [3599, 3600, 3700]] = [0, 1, 1]
   \<and> goalTime DEFAULT_SETTINGS \<noteq> goalTime (settings (goalEffect (oneHourGoal 3600)))
   \<and> \<not> goalAchieved (updateSettings (goalEffect (oneHourGoal 3600)) DEFAULT_SETTINGS
                        (goalEffect (oneHourGoal 3600)))"
proof -
  have a: "\<not> goalAchieved (oneHourGoal 3600)"
    "goalTime (settings (oneHourGoal 3600)) * 3600 \<le> totalFocusTime (oneHourGoal 3600)"
    "\<not> goalAchieved (oneHourGoal 3598)" "goalSignals (oneHourGoal 3598) = 0"
    "goalTime (settings (oneHourGoal 3000)) = 1" "\<not> goalAchieved (oneHourGoal 3000)"
    "goalSignals (oneHourGoal 3000) = 0" "goalSignals (oneHourGoal 3600) = 0"
    by (simp_all add: oneHourGoal_eq)
  have b: "noSettingsChange (pollsAt [1000, 2000, 3000])"
    by (simp add: noSettingsChange_def pollsAt_def)
  have c: "goalTime DEFAULT_SETTINGS \<noteq> goalTime (settings (goalEffect (oneHourGoal 3600)))"
    by (simp add: oneHourGoal_eq goalEffect_def DEFAULT_SETTINGS_def)
  note t1 = goal_one_shot [of "oneHourGoal 3600" "[]" "[]" DEFAULT_SETTINGS
      "goalEffect (oneHourGoal 3600)"]
  note t2 = goal_one_shot [of "goalEffect (oneHourGoal 3600)" "[3700, 3800]" "[]"
      DEFAULT_SETTINGS "goalEffect (oneHourGoal 3600)"]
  note t3 = goal_one_shot [of "oneHourGoal 3598" "[]" "pollsAt [1000, 2000, 3000]"
      DEFAULT_SETTINGS "oneHourGoal 3598"]
  note t4 = goal_one_shot [of "oneHourGoal 3000" "[]" "[]" DEFAULT_SETTINGS "oneHourGoal 3000"]
  from a t1 have d: "goalAchieved (goalEffect (oneHourGoal 3600))"
    "goalSignals (goalEffect (oneHourGoal 3600)) = 1" by simp_all
  from d t2 have e: "goalSignals (goalEvaluations [3700, 3800] (goalEffect (oneHourGoal 3600))) = 1"
    by simp
  from a b t3 have f: "goalSignals (run (pollsAt [1000, 2000, 3000]) (oneHourGoal 3598)) \<le> 1"
    by simp
  from a t4 have g: "map (\<lambda>totals. goalSignals (goalEvaluations totals (oneHourGoal 3000)))
        [[3599], [3599, 3600], [3599, 3600, 3700]] = [0, 1, 1]" by simp
  from c t2 have h: "\<not> goalAchieved (updateSettings (goalEffect (oneHourGoal 3600)) DEFAULT_SETTINGS
                        (goalEffect (oneHourGoal 3600)))" by blast
  from a d e b f g c h show ?thesis by blast
qed

section \<open>The remaining time is not negative\<close>

lemma remaining_nonneg: "0 \<le> remaining d a now"
  by (simp add: remaining_def)
























section \<open>Settings updates\<close>

text \<open>
  C6, as claimed: a settings update with a non-positive duration or goal is rejected and
  the prior settings are retained. Saving settings with a focus duration of 0 minutes
  and a goal of \<open>- 1\<close> hours on the freshly mounted timer replaces the settings.
\<close>

theorem invalid_settings_counterexample:
  "\<not> (settings (render (0, [SaveSettings (DEFAULT_SETTINGS\<lparr>focus := 0, goalTime := - 1\<rparr>)])
                  (mount 0 DEFAULT_SETTINGS noRecord))
        = settings (mount 0 DEFAULT_SETTINGS noRecord))"
  by (simp add: render_def batch_def commitEffects_def goalEffect_def timeTrackingEffect_def
      intervalSetup_def updateSettings_def mount_def initialState_def DEFAULT_SETTINGS_def
      noRecord_def Let_def)

text \<open>
  C6, amended. \<open>updateSettings\<close> rejects nothing: whatever record it is given becomes
  the settings, whether or not its durations and goal are positive, and the countdown
  is reloaded from it, in the timestamp variant and in the tick-counting variant.
\<close>

theorem updateSettings_accepts_all:
  "settings (updateSettings c newSettings s) = newSettings
   \<and> settings (render (now, [SaveSettings newSettings]) s) = newSettings
   \<and> timeLeft (render (now, [SaveSettings newSettings]) s) = minutesOf newSettings (mode s) * 60
   \<and> initialTime (render (now, [SaveSettings newSettings]) s)
       = minutesOf newSettings (mode s) * 60
   \<and> settings (updateSettings_v0 c newSettings s) = newSettings
   \<and> timeLeft (updateSettings_v0 c newSettings s) = minutesOf newSettings (mode c) * 60"
  by (simp add: render_def batch_def commitEffects_def goalEffect_def timeTrackingEffect_def
      intervalSetup_def updateSettings_def updateSettings_v0_def Let_def)

theorem updateSettings_accepts_all_witness:
  "settings (render (5000, [SaveSettings (DEFAULT_SETTINGS\<lparr>shortBreak := 0, goalTime := - 3\<rparr>)])
              runningFocus)
     = DEFAULT_SETTINGS\<lparr>shortBreak := 0, goalTime := - 3\<rparr>
   \<and> timeLeft (render (5000, [SaveSettings (DEFAULT_SETTINGS\<lparr>focus := - 2\<rparr>)]) runningFocus)
     = - 120"
  using updateSettings_accepts_all
      [of runningFocus "DEFAULT_SETTINGS\<lparr>shortBreak := 0, goalTime := - 3\<rparr>" runningFocus 5000]
    updateSettings_accepts_all
      [of runningFocus "DEFAULT_SETTINGS\<lparr>focus := - 2\<rparr>" runningFocus 5000]
  by (simp add: runningFocus_def startedAt_eq DEFAULT_SETTINGS_def)

section \<open>A clock set backward\<close>

text \<open>
  C7, as claimed: when the clock reads a time before the anchor, the remaining time is
  clamped to its last known value and does not exceed the value it had before. A focus
  session anchored at 100000 shows 1490 seconds after a poll at 110000; a poll at 95000
  then stores 1505.
\<close>

theorem clock_anomaly_counterexample:
  "\<not> (timeLeft (render (95000, [Tick 95000])
                  (render (110000, [Tick 110000]) (startedAt 100000)))
        \<le> timeLeft (render (110000, [Tick 110000]) (startedAt 100000)))"
  by (simp add: startedAt_eq render_def batch_def commitEffects_def goalEffect_def
      intervalSetup_def tick_def remaining_def DEFAULT_SETTINGS_def Let_def)

lemma neg_div_1000:
  fixes a :: int
  shows "- (a div 1000) = (- a + 999) div 1000"
proof -
  obtain q r where qr: "a = r + q * 1000" "0 \<le> r" "r < 1000"
    using that [of "a mod 1000" "a div 1000"] by simp
  have "a div 1000 = q + r div 1000"
    unfolding qr(1) by (rule div_mult_self1) simp
  with qr have l: "a div 1000 = q" by simp
  have "- a + 999 = (999 - r) + (- q) * 1000" using qr(1) by simp
  then have "(- a + 999) div 1000 = ((999 - r) + (- q) * 1000) div 1000" by simp
  also have "\<dots> = (- q) + (999 - r) div 1000" by (rule div_mult_self1) simp
  also have "\<dots> = - q" using qr by simp
  finally show ?thesis using l by simp
qed

lemma elapsed_before_anchor:
  fixes now anchor :: int
  assumes "now < anchor"
  shows "- ((now - anchor) div 1000) = (anchor - now + 999) div 1000"
    and "1 \<le> (anchor - now + 999) div 1000"
proof -
  show "- ((now - anchor) div 1000) = (anchor - now + 999) div 1000"
    using neg_div_1000 [of "now - anchor"] by (simp add: algebra_simps)
  have "(1000::int) div 1000 \<le> (anchor - now + 999) div 1000"
    by (rule zdiv_mono1) (use assms in simp_all)
  then show "1 \<le> (anchor - now + 999) div 1000" by simp
qed

text \<open>
  C7, amended. When the clock reads a time before the anchor, the computed remaining time
  is never negative, but it is not clamped to the last known value: it is the configured
  duration plus the number of seconds, rounded up, by which the clock lies before the
  anchor, which is more than the configured duration. That is the value the poll and the
  visibility handler store.
\<close>

theorem clock_anomaly:
  assumes "now < anchor" and "0 \<le> durationSeconds"
  shows "0 \<le> remaining durationSeconds anchor now
         \<and> remaining durationSeconds anchor now
             = durationSeconds + (anchor - now + 999) div 1000
         \<and> durationSeconds < remaining durationSeconds anchor now
         \<and> (isRunning s \<and> startTime s = Some anchor \<and> initialTime s = durationSeconds \<longrightarrow>
              timeLeft (render (now, [Tick now]) s)
                = durationSeconds + (anchor - now + 999) div 1000
              \<and> timeLeft (render (now, [VisibilityChange False now]) s)
                = durationSeconds + (anchor - now + 999) div 1000)"
proof -
  have ceil: "1 \<le> (anchor - now + 999) div 1000"
    using elapsed_before_anchor(2) [OF assms(1)] .
  have "durationSeconds - (now - anchor) div 1000
          = durationSeconds + (anchor - now + 999) div 1000"
    using elapsed_before_anchor(1) [OF assms(1)] by simp
  then have eq: "remaining durationSeconds anchor now
              = durationSeconds + (anchor - now + 999) div 1000"
    using assms(2) ceil by (simp add: remaining_def)
  have nz: "remaining durationSeconds anchor now \<noteq> 0" using eq ceil assms(2) by simp
  show ?thesis
  proof (intro conjI impI)
    show "0 \<le> remaining durationSeconds anchor now" by (rule remaining_nonneg)
    show "remaining durationSeconds anchor now
            = durationSeconds + (anchor - now + 999) div 1000" by (rule eq)
    show "durationSeconds < remaining durationSeconds anchor now" using eq ceil by simp
  next
    assume h: "isRunning s \<and> startTime s = Some anchor \<and> initialTime s = durationSeconds"
    with nz eq show "timeLeft (render (now, [Tick now]) s)
                = durationSeconds + (anchor - now + 999) div 1000"
      using render_poll_not_complete(1) [of s anchor now] by simp
    from h nz eq show "timeLeft (render (now, [VisibilityChange False now]) s)
                = durationSeconds + (anchor - now + 999) div 1000"
      using render_visible_not_complete [of s anchor now] by simp
  qed
qed

theorem clock_anomaly_witness:
  "(95000::int) < 100000 \<and> (0::int) \<le> 1500
   \<and> remaining 1500 100000 95000 = 1505
   \<and> timeLeft (render (95000, [Tick 95000]) (startedAt 100000)) = 1505"
  using clock_anomaly [of 95000 100000 1500 "startedAt 100000"]
  by (simp add: startedAt_eq)

section \<open>Pause and resume\<close>







section \<open>Settings update during a session\<close>

lemma updateSettings_fields:
  "isRunning (updateSettings c newSettings s) = isRunning s"
  "startTime (updateSettings c newSettings s) = None"
  "timeLeft (updateSettings c newSettings s) = minutesOf newSettings (mode c) * 60"
  by (simp_all add: updateSettings_def Let_def)

text \<open>
  C9. A settings update during a session reloads the configured duration of the current
  mode and resets \<open>running\<close> to false. Evaluated on a focus session one minute in
  (1440 seconds left), whose focus duration is changed to 30 minutes: remaining and
  initial time become 1800 and the anchor is cleared, but \<open>isRunning\<close> stays true, and
  a poll a minute later leaves the remaining time at 1800: the countdown is flagged as
  running without an anchor and stands still. \<open>resetTimer\<close> on the same state does
  clear \<open>isRunning\<close>.
\<close>

theorem updateSettings_leaves_running:
  "isRunning (render (60000, [Tick 60000]) (startedAt 0))
   \<and> timeLeft (render (60000, [Tick 60000]) (startedAt 0)) = 1440
   \<and> isRunning (render (61000, [SaveSettings (DEFAULT_SETTINGS\<lparr>focus := 30\<rparr>)])
                  (render (60000, [Tick 60000]) (startedAt 0)))
   \<and> startTime (render (61000, [SaveSettings (DEFAULT_SETTINGS\<lparr>focus := 30\<rparr>)])
                  (render (60000, [Tick 60000]) (startedAt 0))) = None
   \<and> timeLeft (render (61000, [SaveSettings (DEFAULT_SETTINGS\<lparr>focus := 30\<rparr>)])
                  (render (60000, [Tick 60000]) (startedAt 0))) = 1800
   \<and> initialTime (render (61000, [SaveSettings (DEFAULT_SETTINGS\<lparr>focus := 30\<rparr>)])
                  (render (60000, [Tick 60000]) (startedAt 0))) = 1800
   \<and> timeLeft (render (120000, [Tick 120000])
                  (render (61000, [SaveSettings (DEFAULT_SETTINGS\<lparr>focus := 30\<rparr>)])
                    (render (60000, [Tick 60000]) (startedAt 0)))) = 1800
   \<and> \<not> isRunning (render (61000, [ResetTimer]) (render (60000, [Tick 60000]) (startedAt 0)))"
  by (simp add: startedAt_eq render_def batch_def commitEffects_def goalEffect_def
      timeTrackingEffect_def intervalSetup_def tick_def remaining_def updateSettings_def
      resetTimer_def DEFAULT_SETTINGS_def Let_def)


section \<open>Date keys\<close>

lemma showNat_small: "n < 10 \<Longrightarrow> showNat n = [''0123456789'' ! n]"
  by (subst showNat.simps) simp

lemma showNat_large:
  "10 \<le> n \<Longrightarrow> showNat n = showNat (n div 10) @ [''0123456789'' ! (n mod 10)]"
  by (subst showNat.simps) simp

lemma civil_examples:
  "civil_from_days 19723 = (2024, 1, 1)"
  "civil_from_days 19724 = (2024, 1, 2)"
  by code_simp+

lemmas date_simps = isoDate_def utcFields_def localFields_def isoYear_def
  padStart_def String_def showNat_small showNat_large calendarKeyOf_def getDateKey_def
  getFullYear_def getMonth_def getDate_def getTodayDate_def civil_examples

lemma isoDate_examples:
  "isoDate 1704121200000 = ''2024-01-01''"
  "isoDate 1704153595000 = ''2024-01-01''"
  "isoDate 1704153599000 = ''2024-01-01''"
  "isoDate 1704153605000 = ''2024-01-02''"
  "isoDate 1704153610000 = ''2024-01-02''"
  by (simp_all add: date_simps)

lemma calendarKey_example: "calendarKeyOf 540 1704121200000 = ''2024-01-02''"
  by (simp add: date_simps Let_def)

lemma midnight_session:
  "runSaving (pollsAt [1704153595000, 1704153599000, 1704153605000, 1704153610000])
     (startedAt 1704153590000, Map.empty)
   = ((startedAt 1704153590000)\<lparr>timeLeft := 1480, totalFocusTime := 20,
        lastFocusUpdate := 1704153610000\<rparr>,
      [''2024-01-01'' \<mapsto> \<lparr>date = ''2024-01-01'', dayFocusTime = 9, dayPomodoroCount = 0,
                              dayGoalAchieved = False\<rparr>,
       ''2024-01-02'' \<mapsto> \<lparr>date = ''2024-01-02'', dayFocusTime = 20, dayPomodoroCount = 0,
                              dayGoalAchieved = False\<rparr>])"
  by (simp add: runSaving_def pollsAt_def renderSaving_def saveToday_def getTodayDate_def
      isoDate_examples startedAt_eq render_def batch_def commitEffects_def goalEffect_def
      intervalSetup_def tick_def remaining_def DEFAULT_SETTINGS_def Let_def)

text \<open>
  C4. The date key uses the same local calendar day everywhere, and seconds are attributed
  to the local date on which they were earned. Evaluated at 2024-01-01T15:00:00Z in a
  zone nine hours east of UTC, where it is midnight of January 2: the ledger key
  \<open>getTodayDate\<close> is the UTC date 2024-01-01, the calendar cell of that local day has
  the key 2024-01-02. And for a focus session from 23:59:50 to 00:00:10 UTC, polled four
  times: the record of the first date holds 9 seconds, the record of the second date
  holds all 20 seconds of the session.
\<close>

theorem date_key_divergence:
  "getTodayDate 1704121200000 = ''2024-01-01''
   \<and> calendarKeyOf 540 1704121200000 = ''2024-01-02''
   \<and> getTodayDate 1704153599000 = ''2024-01-01''
   \<and> getTodayDate 1704153605000 = ''2024-01-02''
   \<and> map_option dayFocusTime
        (snd (runSaving (pollsAt [1704153595000, 1704153599000, 1704153605000, 1704153610000])
               (startedAt 1704153590000, Map.empty)) ''2024-01-01'') = Some 9
   \<and> map_option dayFocusTime
        (snd (runSaving (pollsAt [1704153595000, 1704153599000, 1704153605000, 1704153610000])
               (startedAt 1704153590000, Map.empty)) ''2024-01-02'') = Some 20"
  by (simp add: midnight_session calendarKey_example isoDate_examples getTodayDate_def)

end
